theory Spec2Isabelle
  imports Main "HOL-Library.Word"
begin

section \<open>Outcomes of a call\<close>

text \<open>
  The Go functions of \<^verbatim>\<open>convert.go\<close> return a value together with an \<^verbatim>\<open>error\<close>;
  an index past the end of a slice is a run-time panic. The errors are built with
  \<^verbatim>\<open>fmt.Errorf\<close>; each constructor below stands for one format string of the source and
  carries the text that is substituted into it.
\<close>

datatype error =
    ErrNilMultiaddr                  \<comment> \<open>\<^verbatim>\<open>"nil multiaddr"\<close>\<close>
  | ErrIncorrectNetAddr              \<comment> \<open>\<^verbatim>\<open>errIncorrectNetAddr\<close>\<close>
  | ErrNotThinWaist string           \<comment> \<open>\<^verbatim>\<open>"%s is not a 'thin waist' address"\<close>\<close>
  | ErrNetworkNotSupported string    \<comment> \<open>\<^verbatim>\<open>"network not supported: %s"\<close>\<close>
  | ErrCollaborator string           \<comment> \<open>any error made by a collaborator\<close>

datatype 'a outcome = Returned 'a | Failed error | Panicked

section \<open>The layered address, as the collaborator exposes it\<close>

text \<open>
  A layered address is an ordered stack of segments, each a protocol name with an
  optional value. The code reads it through \<^verbatim>\<open>Protocols()\<close>, \<^verbatim>\<open>String()\<close> and
  \<^verbatim>\<open>Encapsulate\<close> only: the names in order, the canonical text (every segment is
  written as the delimiter and its name, followed by the delimiter and its value when
  it has one), and the concatenation of two stacks.
\<close>

type_synonym component = "string \<times> string option"
type_synonym multiaddr = "component list"

definition Protocols :: "multiaddr \<Rightarrow> string list" where
  "Protocols m = map fst m"

fun component_text :: "component \<Rightarrow> string" where
  "component_text (n, None) = CHR ''/'' # n"
| "component_text (n, Some v) = CHR ''/'' # n @ CHR ''/'' # v"

definition String :: "multiaddr \<Rightarrow> string" where
  "String m = concat (map component_text m)"

definition Encapsulate :: "multiaddr \<Rightarrow> multiaddr \<Rightarrow> multiaddr" where
  "Encapsulate m n = m @ n"

text \<open>
  What the collaborator's protocol table guarantees of the segments this code reads:
  an \<^verbatim>\<open>ip4\<close>, \<^verbatim>\<open>ip6\<close>, \<^verbatim>\<open>tcp\<close> or \<^verbatim>\<open>udp\<close> segment carries a value, which is not empty
  and holds no delimiter; a \<^verbatim>\<open>utp\<close> segment carries none.
\<close>

fun valid_component :: "component \<Rightarrow> bool" where
  "valid_component (n, v) =
     (if n = ''ip4'' \<or> n = ''ip6'' \<or> n = ''tcp'' \<or> n = ''udp''
      then (case v of None \<Rightarrow> False | Some s \<Rightarrow> s \<noteq> [] \<and> CHR ''/'' \<notin> set s)
      else if n = ''utp'' then v = None
      else True)"

definition valid_multiaddr :: "multiaddr \<Rightarrow> bool" where
  "valid_multiaddr m = list_all valid_component m"

section \<open>Thin-waist validation\<close>

text \<open>
  Modelled from the spec: \<^verbatim>\<open>IsThinWaist\<close> is called by \<^verbatim>\<open>DialArgs\<close> but is not defined in
  \<^verbatim>\<open>convert.go\<close>. The specification gives it as: true iff the protocol sequence is
  exactly one IP segment; or an IP segment followed by exactly one of tcp, udp; or an IP
  segment followed by udp followed by utp.
\<close>

definition is_ip_name :: "string \<Rightarrow> bool" where
  "is_ip_name n = (n = ''ip4'' \<or> n = ''ip6'')"

fun thin_waist_shape :: "string list \<Rightarrow> bool" where
  "thin_waist_shape [] = False"
| "thin_waist_shape [i] = is_ip_name i"
| "thin_waist_shape [i, t] = (is_ip_name i \<and> (t = ''tcp'' \<or> t = ''udp''))"
| "thin_waist_shape [i, t, u] = (is_ip_name i \<and> t = ''udp'' \<and> u = ''utp'')"
| "thin_waist_shape (i # t # u # w # ws) = False"

definition IsThinWaist :: "multiaddr \<Rightarrow> bool" where
  "IsThinWaist m = thin_waist_shape (Protocols m)"

section \<open>Dial arguments\<close>

text \<open>
  \<^verbatim>\<open>strings.Split(s, "/")\<close>: the pieces of \<open>s\<close> between the delimiters; a text without
  delimiter, the empty one too, is a single piece.
\<close>

fun Split :: "string \<Rightarrow> char \<Rightarrow> string list" where
  "Split [] sep = [[]]"
| "Split (c # cs) sep =
     (if c = sep then [] # Split cs sep
      else (case Split cs sep of [] \<Rightarrow> [[c]] | p # ps \<Rightarrow> (c # p) # ps))"

text \<open>
  \<^verbatim>\<open>DialArgs\<close>, lines 75 to 102. \<^verbatim>\<open>parts[i]\<close> panics when \<open>i\<close> is not below
  \<^verbatim>\<open>len(parts)\<close>: \<^verbatim>\<open>parts[2]\<close> is read as soon as the length is not 2, \<^verbatim>\<open>parts[4]\<close>
  only behind its length test, \<^verbatim>\<open>parts[3]\<close> in both branches of the switch. When
  \<^verbatim>\<open>parts[0]\<close> is neither \<^verbatim>\<open>ip4\<close> nor \<^verbatim>\<open>ip6\<close> the switch does nothing and the host
  stays empty.
\<close>

definition DialArgs :: "multiaddr \<Rightarrow> (string \<times> string) outcome" where
  "DialArgs m =
     (if \<not> IsThinWaist m then Failed (ErrNotThinWaist (String m))
      else
        let str = String m;
            parts = tl (Split str (CHR ''/''))
        in if length parts = 2 then Returned (parts ! 0, parts ! 1)
           else if length parts \<le> 2 then Panicked
           else
             let network =
                   (if parts ! 2 = ''udp'' \<and> length parts > 4 \<and> parts ! 4 = ''utp''
                    then parts ! 4 else parts ! 2)
             in if parts ! 0 = ''ip4'' then
                  (if length parts \<le> 3 then Panicked
                   else Returned (network @ ''4'', parts ! 1 @ '':'' @ parts ! 3))
                else if parts ! 0 = ''ip6'' then
                  (if length parts \<le> 3 then Panicked
                   else Returned (network @ ''6'', ''['' @ parts ! 1 @ '']:'' @ parts ! 3))
                else Returned (network, []))"

section \<open>Native addresses and the platform\<close>

text \<open>
  A native address is a value of the platform's \<^verbatim>\<open>net.Addr\<close> interface: it answers
  \<^verbatim>\<open>Network()\<close> with a name, and has a concrete shape that the converters test with a
  type assertion. The converters read the IP and the port of the transport shapes, the
  IP of the two IP shapes, and the child of the overlay-transport shape.
\<close>

type_synonym IP = "8 word list"

datatype netaddr = NetAddr (Network: string) (shape: addr_shape)
and addr_shape =
    TCPAddr IP int
  | UDPAddr IP int
  | IPAddr IP
  | IPNet IP
  | UtpAddr netaddr
  | OtherAddr

text \<open>
  \<^verbatim>\<open>net.IP.To4\<close> and \<^verbatim>\<open>net.IP.To16\<close> of the platform; \<open>None\<close> is the nil result. A
  4-byte value is its own 4-byte form; a 16-byte value has one when its first ten bytes
  are zero and the next two are \<^verbatim>\<open>0xff\<close>. Values of 4 and of 16 bytes have a 16-byte
  form.
\<close>

definition To4 :: "IP \<Rightarrow> IP option" where
  "To4 ip =
     (if length ip = 4 then Some ip
      else if length ip = 16 \<and> list_all (\<lambda>b. b = 0) (take 10 ip)
              \<and> ip ! 10 = 0xff \<and> ip ! 11 = 0xff
           then Some (drop 12 ip)
      else None)"

definition To16 :: "IP \<Rightarrow> IP option" where
  "To16 ip =
     (if length ip = 4 then Some (replicate 10 0 @ [0xff, 0xff] @ ip)
      else if length ip = 16 then Some ip
      else None)"

text \<open>
  The collaborators the code calls and does not define: the parser of the layered-address
  library, the text of an IP value, and the four address-resolution routines.
\<close>

record platform =
  NewMultiaddr :: "string \<Rightarrow> multiaddr outcome"
  IP_String :: "IP \<Rightarrow> string"
  ResolveTCPAddr :: "string \<Rightarrow> string \<Rightarrow> netaddr outcome"
  ResolveUDPAddr :: "string \<Rightarrow> string \<Rightarrow> netaddr outcome"
  utp_ResolveAddr :: "string \<Rightarrow> string \<Rightarrow> netaddr outcome"
  ResolveIPAddr :: "string \<Rightarrow> string \<Rightarrow> netaddr outcome"

text \<open>\<^verbatim>\<open>fmt.Sprintf("%d", n)\<close>: the decimal text of an integer.\<close>

fun decimal :: "nat \<Rightarrow> string" where
  "decimal n =
     (if n < 10 then [''0123456789'' ! n]
      else decimal (n div 10) @ [''0123456789'' ! (n mod 10)])"

definition Sprintf_d :: "int \<Rightarrow> string" where
  "Sprintf_d i = (if i < 0 then CHR ''-'' # decimal (nat (- i)) else decimal (nat i))"

section \<open>Converters\<close>

text \<open>\<^verbatim>\<open>FromIP\<close>, lines 63 to 72.\<close>

definition FromIP :: "platform \<Rightarrow> IP \<Rightarrow> multiaddr outcome" where
  "FromIP env ip =
     (if To4 ip \<noteq> None then NewMultiaddr env (''/ip4/'' @ IP_String env ip)
      else if To16 ip \<noteq> None then NewMultiaddr env (''/ip6/'' @ IP_String env ip)
      else Failed ErrIncorrectNetAddr)"

text \<open>
  The body shared by the three transport converters once the type assertions have
  passed: the IP segment, the segment parsed from \<open>suffix\<close>, and their encapsulation.
  Every error on the way is replaced by \<^verbatim>\<open>errIncorrectNetAddr\<close>.
\<close>

definition encapsulate_port :: "platform \<Rightarrow> IP \<Rightarrow> string \<Rightarrow> multiaddr outcome" where
  "encapsulate_port env ip suffix =
     (case FromIP env ip of
        Failed e \<Rightarrow> Failed ErrIncorrectNetAddr
      | Panicked \<Rightarrow> Panicked
      | Returned ipm \<Rightarrow>
          (case NewMultiaddr env suffix of
             Failed e \<Rightarrow> Failed ErrIncorrectNetAddr
           | Panicked \<Rightarrow> Panicked
           | Returned tm \<Rightarrow> Returned (Encapsulate ipm tm)))"

text \<open>\<^verbatim>\<open>parseTcpNetAddr\<close>, lines 111 to 131.\<close>

definition parseTcpNetAddr :: "platform \<Rightarrow> netaddr \<Rightarrow> multiaddr outcome" where
  "parseTcpNetAddr env a =
     (case shape a of
        TCPAddr ip port \<Rightarrow> encapsulate_port env ip (''/tcp/'' @ Sprintf_d port)
      | _ \<Rightarrow> Failed ErrIncorrectNetAddr)"

text \<open>\<^verbatim>\<open>parseUdpNetAddr\<close>, lines 140 to 160.\<close>

definition parseUdpNetAddr :: "platform \<Rightarrow> netaddr \<Rightarrow> multiaddr outcome" where
  "parseUdpNetAddr env a =
     (case shape a of
        UDPAddr ip port \<Rightarrow> encapsulate_port env ip (''/udp/'' @ Sprintf_d port)
      | _ \<Rightarrow> Failed ErrIncorrectNetAddr)"

text \<open>\<^verbatim>\<open>parseUtpNetAddr\<close>, lines 169 to 195: the child must be UDP-shaped.\<close>

definition parseUtpNetAddr :: "platform \<Rightarrow> netaddr \<Rightarrow> multiaddr outcome" where
  "parseUtpNetAddr env a =
     (case shape a of
        UtpAddr child \<Rightarrow>
          (case shape child of
             UDPAddr ip port \<Rightarrow>
               encapsulate_port env ip (''/udp/'' @ Sprintf_d port @ ''/utp'')
           | _ \<Rightarrow> Failed ErrIncorrectNetAddr)
      | _ \<Rightarrow> Failed ErrIncorrectNetAddr)"

text \<open>\<^verbatim>\<open>parseIpNetAddr\<close>, lines 211 to 217, and \<^verbatim>\<open>parseIpPlusNetAddr\<close>, lines 219 to 225.\<close>

definition parseIpNetAddr :: "platform \<Rightarrow> netaddr \<Rightarrow> multiaddr outcome" where
  "parseIpNetAddr env a =
     (case shape a of IPAddr ip \<Rightarrow> FromIP env ip | _ \<Rightarrow> Failed ErrIncorrectNetAddr)"

definition parseIpPlusNetAddr :: "platform \<Rightarrow> netaddr \<Rightarrow> multiaddr outcome" where
  "parseIpPlusNetAddr env a =
     (case shape a of IPNet ip \<Rightarrow> FromIP env ip | _ \<Rightarrow> Failed ErrIncorrectNetAddr)"

text \<open>\<^verbatim>\<open>parseBasicNetMaddr\<close>, lines 42 to 60.\<close>

definition parseBasicNetMaddr :: "platform \<Rightarrow> multiaddr \<Rightarrow> netaddr outcome" where
  "parseBasicNetMaddr env maddr =
     (case DialArgs maddr of
        Failed err \<Rightarrow> Failed err
      | Panicked \<Rightarrow> Panicked
      | Returned (network, host) \<Rightarrow>
          if network = ''tcp'' \<or> network = ''tcp4'' \<or> network = ''tcp6''
            then ResolveTCPAddr env network host
          else if network = ''udp'' \<or> network = ''udp4'' \<or> network = ''udp6''
            then ResolveUDPAddr env network host
          else if network = ''utp'' \<or> network = ''utp4'' \<or> network = ''utp6''
            then utp_ResolveAddr env network host
          else if network = ''ip'' \<or> network = ''ip4'' \<or> network = ''ip6''
            then ResolveIPAddr env network host
          else Failed (ErrNetworkNotSupported network))"

section \<open>Address specifications and their registry\<close>

record AddressSpec =
  Key :: string
  NetNames :: "string list"
  ParseNetAddr :: "netaddr \<Rightarrow> multiaddr outcome"
  ConvertMultiaddr :: "multiaddr \<Rightarrow> netaddr outcome"

text \<open>The five specifications of lines 104 to 209.\<close>

definition tcpAddrSpec :: "platform \<Rightarrow> AddressSpec" where
  "tcpAddrSpec env =
     \<lparr>Key = ''tcp'', NetNames = [''tcp'', ''tcp4'', ''tcp6''],
      ParseNetAddr = parseTcpNetAddr env, ConvertMultiaddr = parseBasicNetMaddr env\<rparr>"

definition udpAddrSpec :: "platform \<Rightarrow> AddressSpec" where
  "udpAddrSpec env =
     \<lparr>Key = ''udp'', NetNames = [''udp'', ''udp4'', ''udp6''],
      ParseNetAddr = parseUdpNetAddr env, ConvertMultiaddr = parseBasicNetMaddr env\<rparr>"

definition utpAddrSpec :: "platform \<Rightarrow> AddressSpec" where
  "utpAddrSpec env =
     \<lparr>Key = ''utp'', NetNames = [''utp'', ''utp4'', ''utp6''],
      ParseNetAddr = parseUtpNetAddr env, ConvertMultiaddr = parseBasicNetMaddr env\<rparr>"

definition ip4AddrSpec :: "platform \<Rightarrow> AddressSpec" where
  "ip4AddrSpec env =
     \<lparr>Key = ''ip4'', NetNames = [''ip4''],
      ParseNetAddr = parseIpNetAddr env, ConvertMultiaddr = parseBasicNetMaddr env\<rparr>"

definition ip6AddrSpec :: "platform \<Rightarrow> AddressSpec" where
  "ip6AddrSpec env =
     \<lparr>Key = ''ip6'', NetNames = [''ip6''],
      ParseNetAddr = parseIpNetAddr env, ConvertMultiaddr = parseBasicNetMaddr env\<rparr>"

text \<open>
  Modelled from the spec: the registry and its two lookups, \<^verbatim>\<open>getAddrParser\<close> and
  \<^verbatim>\<open>getMaddrParser\<close>, are called by \<^verbatim>\<open>FromNetAddr\<close> and \<^verbatim>\<open>ToNetAddr\<close> but are not
  defined in \<^verbatim>\<open>convert.go\<close>. The specification gives the registry as the registered
  specifications, looked up by each entry of \<^verbatim>\<open>NetNames\<close> in one direction and by
  \<^verbatim>\<open>Key\<close> in the other, a lookup that finds nothing failing with "unsupported network";
  one specification is registered for each supported protocol.
\<close>

type_synonym registry = "AddressSpec list"

definition LookupByNetName :: "registry \<Rightarrow> string \<Rightarrow> AddressSpec option" where
  "LookupByNetName reg name = find (\<lambda>s. name \<in> set (NetNames s)) reg"

definition LookupByProtocolKey :: "registry \<Rightarrow> string \<Rightarrow> AddressSpec option" where
  "LookupByProtocolKey reg k = find (\<lambda>s. Key s = k) reg"

definition getAddrParser :: "registry \<Rightarrow> string \<Rightarrow> (netaddr \<Rightarrow> multiaddr outcome) outcome" where
  "getAddrParser reg name =
     (case LookupByNetName reg name of
        None \<Rightarrow> Failed (ErrNetworkNotSupported name)
      | Some s \<Rightarrow> Returned (ParseNetAddr s))"

definition getMaddrParser :: "registry \<Rightarrow> string \<Rightarrow> (multiaddr \<Rightarrow> netaddr outcome) outcome" where
  "getMaddrParser reg name =
     (case LookupByProtocolKey reg name of
        None \<Rightarrow> Failed (ErrNetworkNotSupported name)
      | Some s \<Rightarrow> Returned (ConvertMultiaddr s))"

definition registered :: "platform \<Rightarrow> registry" where
  "registered env =
     [tcpAddrSpec env, udpAddrSpec env, utpAddrSpec env, ip4AddrSpec env, ip6AddrSpec env]"

section \<open>Dispatch\<close>

text \<open>\<^verbatim>\<open>FromNetAddr\<close>, lines 15 to 25; \<open>None\<close> is the nil interface value.\<close>

definition FromNetAddr :: "registry \<Rightarrow> netaddr option \<Rightarrow> multiaddr outcome" where
  "FromNetAddr reg a =
     (case a of
        None \<Rightarrow> Failed ErrNilMultiaddr
      | Some addr \<Rightarrow>
          (case getAddrParser reg (Network addr) of
             Failed err \<Rightarrow> Failed err
           | Panicked \<Rightarrow> Panicked
           | Returned p \<Rightarrow> p addr))"

text \<open>
  \<^verbatim>\<open>ToNetAddr\<close>, lines 30 to 40. \<^verbatim>\<open>protos[len(protos)-1]\<close> panics on the empty slice.
\<close>

definition ToNetAddr :: "registry \<Rightarrow> multiaddr \<Rightarrow> netaddr outcome" where
  "ToNetAddr reg maddr =
     (let protos = Protocols maddr
      in if protos = [] then Panicked
         else
           (case getMaddrParser reg (protos ! (length protos - 1)) of
              Failed err \<Rightarrow> Failed err
            | Panicked \<Rightarrow> Panicked
            | Returned p \<Rightarrow> p maddr))"

section \<open>Notions used to state the properties\<close>

text \<open>
  The parser of the layered-address library reads the text of one segment, a name and its
  canonical value, as that segment.
\<close>

definition parses_segment :: "platform \<Rightarrow> string \<Rightarrow> string \<Rightarrow> bool" where
  "parses_segment env n v =
     (NewMultiaddr env (CHR ''/'' # n @ CHR ''/'' # v) = Returned [(n, Some v)])"

text \<open>\<^verbatim>\<open>strings.HasPrefix\<close>: the text \<open>s\<close> begins with \<open>p\<close>.\<close>

definition HasPrefix :: "string \<Rightarrow> string \<Rightarrow> bool" where
  "HasPrefix s p = (take (length p) s = p)"

text \<open>The four resolution routines return, a value or an error, on every input.\<close>

definition resolvers_return :: "platform \<Rightarrow> bool" where
  "resolvers_return env =
     (\<forall>network host.
        ResolveTCPAddr env network host \<noteq> Panicked
        \<and> ResolveUDPAddr env network host \<noteq> Panicked
        \<and> utp_ResolveAddr env network host \<noteq> Panicked
        \<and> ResolveIPAddr env network host \<noteq> Panicked)"

text \<open>
  A small platform on which the statements are exercised: its parser and its resolvers
  know the texts of one IPv4 host, of the IPv6 loopback and of two ports, and refuse
  every other text.
\<close>

definition sample_platform :: platform where
  "sample_platform =
     \<lparr>NewMultiaddr = (\<lambda>s.
        if s = ''/ip4/1.2.3.4'' then Returned [(''ip4'', Some ''1.2.3.4'')]
        else if s = ''/ip6/::1'' then Returned [(''ip6'', Some ''::1'')]
        else if s = ''/tcp/80'' then Returned [(''tcp'', Some ''80'')]
        else if s = ''/udp/9'' then Returned [(''udp'', Some ''9'')]
        else if s = ''/udp/9/utp'' then Returned [(''udp'', Some ''9''), (''utp'', None)]
        else Failed (ErrCollaborator s)),
      IP_String = (\<lambda>ip.
        if To4 ip = Some [1, 2, 3, 4] then ''1.2.3.4''
        else if ip = [0, 0, 0, 0, 0, 0, 0, 0, 0, 0, 0, 0, 0, 0, 0, 1] then ''::1''
        else ''?''),
      ResolveTCPAddr = (\<lambda>network host.
        if host = ''1.2.3.4:80'' then Returned (NetAddr ''tcp'' (TCPAddr [1, 2, 3, 4] 80))
        else Failed (ErrCollaborator host)),
      ResolveUDPAddr = (\<lambda>network host.
        if host = ''1.2.3.4:9'' then Returned (NetAddr ''udp'' (UDPAddr [1, 2, 3, 4] 9))
        else Failed (ErrCollaborator host)),
      utp_ResolveAddr = (\<lambda>network host.
        if host = ''1.2.3.4:9''
        then Returned (NetAddr ''utp'' (UtpAddr (NetAddr ''udp'' (UDPAddr [1, 2, 3, 4] 9))))
        else Failed (ErrCollaborator host)),
      ResolveIPAddr = (\<lambda>network host.
        if host = ''1.2.3.4'' then Returned (NetAddr ''ip'' (IPAddr [1, 2, 3, 4]))
        else Failed (ErrCollaborator host))\<rparr>"

section \<open>Properties of the thin-waist predicate\<close>

lemma thin_waist_shape_iff:
  "thin_waist_shape ps \<longleftrightarrow>
     ps \<in> {[''ip4''], [''ip6''], [''ip4'', ''tcp''], [''ip6'', ''tcp''],
           [''ip4'', ''udp''], [''ip6'', ''udp''],
           [''ip4'', ''udp'', ''utp''], [''ip6'', ''udp'', ''utp'']}"
  by (induction ps rule: thin_waist_shape.induct) (auto simp: is_ip_name_def)

text \<open>
  Claim C4. \<^verbatim>\<open>IsThinWaist\<close> is a total predicate that holds exactly when the ordered
  protocol names of the address are one of ip4; ip6; ip4,tcp; ip6,tcp; ip4,udp;
  ip6,udp; ip4,udp,utp; ip6,udp,utp. The empty sequence, a transport alone and two IP
  segments in a row are rejected.
\<close>

theorem IsThinWaist_exact_shapes:
  "(IsThinWaist m \<longleftrightarrow>
      Protocols m \<in> {[''ip4''], [''ip6''], [''ip4'', ''tcp''], [''ip6'', ''tcp''],
                     [''ip4'', ''udp''], [''ip6'', ''udp''],
                     [''ip4'', ''udp'', ''utp''], [''ip6'', ''udp'', ''utp'']})
   \<and> \<not> IsThinWaist []
   \<and> \<not> IsThinWaist [(''tcp'', Some ''80'')]
   \<and> \<not> IsThinWaist [(''ip4'', Some ''1.2.3.4''), (''ip4'', Some ''5.6.7.8'')]"
  unfolding IsThinWaist_def thin_waist_shape_iff
  by (simp add: Protocols_def)

text \<open>
  A well-formed thin-waist address is an IP segment with its value, alone, or followed
  by a tcp or udp segment with its value, or by a udp segment with its value and the
  utp marker.
\<close>

lemma thin_waist_valid_cases:
  assumes "IsThinWaist m" "valid_multiaddr m"
  obtains (ip) i a where "is_ip_name i" "m = [(i, Some a)]" "CHR ''/'' \<notin> set a"
  | (transport) i a t p where "is_ip_name i" "t = ''tcp'' \<or> t = ''udp''"
      "m = [(i, Some a), (t, Some p)]" "CHR ''/'' \<notin> set a" "CHR ''/'' \<notin> set p"
  | (utp) i a p where "is_ip_name i"
      "m = [(i, Some a), (''udp'', Some p), (''utp'', None)]"
      "CHR ''/'' \<notin> set a" "CHR ''/'' \<notin> set p"
proof -
  from assms(1)
  have "Protocols m \<in> {[''ip4''], [''ip6''], [''ip4'', ''tcp''], [''ip6'', ''tcp''],
           [''ip4'', ''udp''], [''ip6'', ''udp''],
           [''ip4'', ''udp'', ''utp''], [''ip6'', ''udp'', ''utp'']}"
    unfolding IsThinWaist_def thin_waist_shape_iff .
  with assms(2) show ?thesis
    using that
    by (auto simp: Protocols_def valid_multiaddr_def is_ip_name_def split: option.splits)
qed

section \<open>Splitting the canonical text\<close>

lemma Split_no_sep: "sep \<notin> set s \<Longrightarrow> Split s sep = [s]"
  by (induction s) auto

lemma Split_append_sep:
  "sep \<notin> set s \<Longrightarrow> Split (s @ sep # r) sep = s # Split r sep"
  by (induction s) auto

lemma parts_ip:
  "CHR ''/'' \<notin> set i \<Longrightarrow> CHR ''/'' \<notin> set a \<Longrightarrow>
   tl (Split (String [(i, Some a)]) (CHR ''/'')) = [i, a]"
  by (simp add: String_def Split_append_sep Split_no_sep)

lemma parts_transport:
  "CHR ''/'' \<notin> set i \<Longrightarrow> CHR ''/'' \<notin> set a \<Longrightarrow> CHR ''/'' \<notin> set t \<Longrightarrow>
   CHR ''/'' \<notin> set p \<Longrightarrow>
   tl (Split (String [(i, Some a), (t, Some p)]) (CHR ''/'')) = [i, a, t, p]"
  by (simp add: String_def Split_append_sep Split_no_sep)

lemma parts_utp:
  "CHR ''/'' \<notin> set i \<Longrightarrow> CHR ''/'' \<notin> set a \<Longrightarrow> CHR ''/'' \<notin> set t \<Longrightarrow>
   CHR ''/'' \<notin> set p \<Longrightarrow> CHR ''/'' \<notin> set u \<Longrightarrow>
   tl (Split (String [(i, Some a), (t, Some p), (u, None)]) (CHR ''/'')) = [i, a, t, p, u]"
  by (simp add: String_def Split_append_sep Split_no_sep)

section \<open>Dial arguments of a thin-waist address\<close>

text \<open>\<^verbatim>\<open>DialArgs\<close> past its guard, as a function of the pieces of the text.\<close>

lemma DialArgs_parts:
  assumes "IsThinWaist m" and "tl (Split (String m) (CHR ''/'')) = parts"
  shows "DialArgs m =
     (if length parts = 2 then Returned (parts ! 0, parts ! 1)
      else if length parts \<le> 2 then Panicked
      else if parts ! 0 = ''ip4'' then
        (if length parts \<le> 3 then Panicked
         else Returned
           ((if parts ! 2 = ''udp'' \<and> length parts > 4 \<and> parts ! 4 = ''utp''
             then parts ! 4 else parts ! 2) @ ''4'', parts ! 1 @ '':'' @ parts ! 3))
      else if parts ! 0 = ''ip6'' then
        (if length parts \<le> 3 then Panicked
         else Returned
           ((if parts ! 2 = ''udp'' \<and> length parts > 4 \<and> parts ! 4 = ''utp''
             then parts ! 4 else parts ! 2) @ ''6'', ''['' @ parts ! 1 @ '']:'' @ parts ! 3))
      else Returned
        ((if parts ! 2 = ''udp'' \<and> length parts > 4 \<and> parts ! 4 = ''utp''
          then parts ! 4 else parts ! 2), []))"
  unfolding DialArgs_def Let_def assms(2) using assms(1) by simp

lemma DialArgs_ip:
  assumes "is_ip_name i" "CHR ''/'' \<notin> set a"
  shows "DialArgs [(i, Some a)] = Returned (i, a)"
proof -
  have "IsThinWaist [(i, Some a)]"
    using assms(1) by (simp add: IsThinWaist_def Protocols_def)
  moreover have "tl (Split (String [(i, Some a)]) (CHR ''/'')) = [i, a]"
    using assms by (intro parts_ip) (auto simp: is_ip_name_def)
  ultimately show ?thesis by (simp add: DialArgs_parts)
qed

lemma DialArgs_transport:
  assumes "is_ip_name i" "t = ''tcp'' \<or> t = ''udp''"
    and "CHR ''/'' \<notin> set a" "CHR ''/'' \<notin> set p"
  shows "DialArgs [(i, Some a), (t, Some p)] =
           (if i = ''ip4'' then Returned (t @ ''4'', a @ '':'' @ p)
            else Returned (t @ ''6'', ''['' @ a @ '']:'' @ p))"
proof -
  have "IsThinWaist [(i, Some a), (t, Some p)]"
    using assms(1,2) by (auto simp add: IsThinWaist_def Protocols_def)
  moreover have "tl (Split (String [(i, Some a), (t, Some p)]) (CHR ''/'')) = [i, a, t, p]"
    using assms by (intro parts_transport) (auto simp: is_ip_name_def)
  ultimately show ?thesis
    using assms(1) by (auto simp add: DialArgs_parts is_ip_name_def)
qed

lemma DialArgs_utp:
  assumes "is_ip_name i" "CHR ''/'' \<notin> set a" "CHR ''/'' \<notin> set p"
  shows "DialArgs [(i, Some a), (''udp'', Some p), (''utp'', None)] =
           (if i = ''ip4'' then Returned (''utp4'', a @ '':'' @ p)
            else Returned (''utp6'', ''['' @ a @ '']:'' @ p))"
proof -
  let ?m = "[(i, Some a), (''udp'', Some p), (''utp'', None)]"
  have "IsThinWaist ?m"
    using assms(1) by (auto simp add: IsThinWaist_def Protocols_def)
  moreover have "tl (Split (String ?m) (CHR ''/'')) = [i, a, ''udp'', p, ''utp'']"
    using assms by (intro parts_utp) (auto simp: is_ip_name_def)
  ultimately show ?thesis
    using assms(1) by (auto simp add: DialArgs_parts is_ip_name_def)
qed

lemma DialArgs_never_fails_thin: "IsThinWaist m \<Longrightarrow> DialArgs m \<noteq> Failed e"
  by (simp add: DialArgs_def Let_def)

lemma DialArgs_valid_thin_returns:
  assumes "IsThinWaist m" "valid_multiaddr m"
  shows "\<exists>n h. DialArgs m = Returned (n, h)"
  using assms
proof (cases rule: thin_waist_valid_cases)
  case (ip i a)
  then show ?thesis by (simp add: DialArgs_ip)
next
  case (transport i a t p)
  then show ?thesis using DialArgs_transport [of i t a p] by auto
next
  case (utp i a p)
  then show ?thesis using DialArgs_utp [of i a p] by auto
qed

lemma DialArgs_valid_no_panic:
  assumes "valid_multiaddr m" shows "DialArgs m \<noteq> Panicked"
proof (cases "IsThinWaist m")
  case True
  from DialArgs_valid_thin_returns [OF this assms] show ?thesis by auto
next
  case False
  then show ?thesis by (simp add: DialArgs_def)
qed

lemma DialArgs_valid_names:
  assumes "valid_multiaddr m" "DialArgs m = Returned (n, h)"
  shows "n \<in> {''ip4'', ''ip6'', ''tcp4'', ''tcp6'', ''udp4'', ''udp6'', ''utp4'', ''utp6''}"
proof -
  have t: "IsThinWaist m"
    using assms(2) by (cases "IsThinWaist m") (auto simp: DialArgs_def)
  from t assms(1) show ?thesis
  proof (cases rule: thin_waist_valid_cases)
    case (ip i a)
    then show ?thesis using assms(2) by (auto simp: DialArgs_ip is_ip_name_def)
  next
    case (transport i a t p)
    then show ?thesis using assms(2) DialArgs_transport [of i t a p]
      by (auto simp: is_ip_name_def split: if_splits)
  next
    case (utp i a p)
    then show ?thesis using assms(2) DialArgs_utp [of i a p]
      by (auto simp: is_ip_name_def split: if_splits)
  qed
qed

text \<open>
  Claim C1. \<^verbatim>\<open>DialArgs\<close> returns an error exactly when \<^verbatim>\<open>IsThinWaist\<close> is false, and
  that error is the not-thin-waist error, carrying the text of the address; on a
  thin-waist address, well-formed as the library builds it, it returns a pair of a
  network name and a host, with no error.
\<close>

theorem DialArgs_error_iff_not_thin_waist:
  "((\<exists>e. DialArgs m = Failed e) \<longleftrightarrow> \<not> IsThinWaist m)
   \<and> (\<forall>e. DialArgs m = Failed e \<longrightarrow> e = ErrNotThinWaist (String m))
   \<and> (valid_multiaddr m \<and> IsThinWaist m \<longrightarrow>
        (\<exists>network host. DialArgs m = Returned (network, host)))"
proof (intro conjI allI impI)
  show "(\<exists>e. DialArgs m = Failed e) \<longleftrightarrow> \<not> IsThinWaist m"
    using DialArgs_never_fails_thin [of m] by (auto simp: DialArgs_def)
next
  fix e assume "DialArgs m = Failed e"
  then show "e = ErrNotThinWaist (String m)"
    using DialArgs_never_fails_thin [of m e]
    by (cases "IsThinWaist m") (auto simp: DialArgs_def)
next
  assume "valid_multiaddr m \<and> IsThinWaist m"
  then show "\<exists>network host. DialArgs m = Returned (network, host)"
    using DialArgs_valid_thin_returns by simp
qed

theorem DialArgs_error_iff_not_thin_waist_witness:
  "(\<exists>network host.
      DialArgs [(''ip4'', Some ''7.7.7.7''), (''tcp'', Some ''4242'')] = Returned (network, host))
   \<and> \<not> IsThinWaist [(''ip4'', Some ''1.2.3.4''), (''tcp'', Some ''80''), (''tcp'', Some ''81'')]
   \<and> DialArgs [(''ip4'', Some ''1.2.3.4''), (''tcp'', Some ''80''), (''tcp'', Some ''81'')]
       = Failed (ErrNotThinWaist ''/ip4/1.2.3.4/tcp/80/tcp/81'')"
proof -
  let ?good = "[(''ip4'', Some ''7.7.7.7''), (''tcp'', Some ''4242'')]"
  let ?bad = "[(''ip4'', Some ''1.2.3.4''), (''tcp'', Some ''80''), (''tcp'', Some ''81'')]"
  have v: "valid_multiaddr ?good \<and> IsThinWaist ?good"
    by (simp add: valid_multiaddr_def IsThinWaist_def Protocols_def is_ip_name_def)
  have n: "\<not> IsThinWaist ?bad"
    by (simp add: IsThinWaist_def Protocols_def)
  have s: "String ?bad = ''/ip4/1.2.3.4/tcp/80/tcp/81''"
    by (simp add: String_def)
  from n DialArgs_error_iff_not_thin_waist [of ?bad]
  obtain e where "DialArgs ?bad = Failed e" and "e = ErrNotThinWaist (String ?bad)"
    by blast
  then have "DialArgs ?bad = Failed (ErrNotThinWaist ''/ip4/1.2.3.4/tcp/80/tcp/81'')"
    using s by simp
  with v n DialArgs_error_iff_not_thin_waist [of ?good] show ?thesis
    by blast
qed

text \<open>
  Claim C2. On a thin-waist address, well-formed as the library builds it, \<^verbatim>\<open>DialArgs\<close>
  returns: for a bare IP segment, whose text has exactly two pieces after the leading
  delimiter, these two pieces, the protocol name and the address; for an IP segment
  followed by a transport, the transport name with 4 or 6 appended, for ip4 or ip6, and
  the host \<open>ip:port\<close> for ip4 and \<open>[ip]:port\<close> for ip6. With the utp marker the
  transport name is utp.
\<close>

theorem DialArgs_thin_waist_result:
  assumes "valid_multiaddr m" and "IsThinWaist m"
  shows "(\<exists>i a. is_ip_name i \<and> m = [(i, Some a)]
             \<and> tl (Split (String m) (CHR ''/'')) = [i, a]
             \<and> DialArgs m = Returned (i, a))
       \<or> (\<exists>a t p. (t = ''tcp'' \<or> t = ''udp'') \<and> m = [(''ip4'', Some a), (t, Some p)]
             \<and> DialArgs m = Returned (t @ ''4'', a @ '':'' @ p))
       \<or> (\<exists>a t p. (t = ''tcp'' \<or> t = ''udp'') \<and> m = [(''ip6'', Some a), (t, Some p)]
             \<and> DialArgs m = Returned (t @ ''6'', ''['' @ a @ '']:'' @ p))
       \<or> (\<exists>a p. m = [(''ip4'', Some a), (''udp'', Some p), (''utp'', None)]
             \<and> DialArgs m = Returned (''utp4'', a @ '':'' @ p))
       \<or> (\<exists>a p. m = [(''ip6'', Some a), (''udp'', Some p), (''utp'', None)]
             \<and> DialArgs m = Returned (''utp6'', ''['' @ a @ '']:'' @ p))"
  using assms(2,1)
proof (cases rule: thin_waist_valid_cases)
  case (ip i a)
  then show ?thesis using parts_ip [of i a] by (auto simp: DialArgs_ip is_ip_name_def)
next
  case (transport i a t p)
  then show ?thesis using DialArgs_transport [of i t a p] by (auto simp: is_ip_name_def)
next
  case (utp i a p)
  then show ?thesis using DialArgs_utp [of i a p] by (auto simp: is_ip_name_def)
qed

theorem DialArgs_thin_waist_result_witness:
  "DialArgs [(''ip4'', Some ''7.7.7.7''), (''tcp'', Some ''4242'')]
     = Returned (''tcp4'', ''7.7.7.7:4242'')
   \<and> DialArgs [(''ip6'', Some ''::1''), (''udp'', Some ''1234'')]
     = Returned (''udp6'', ''[::1]:1234'')
   \<and> DialArgs [(''ip6'', Some ''::1'')] = Returned (''ip6'', ''::1'')"
proof -
  let ?a = "[(''ip4'', Some ''7.7.7.7''), (''tcp'', Some ''4242'')]"
  let ?b = "[(''ip6'', Some ''::1''), (''udp'', Some ''1234'')]"
  let ?c = "[(''ip6'', Some ''::1'')]"
  have va: "valid_multiaddr ?a" "IsThinWaist ?a"
    and vb: "valid_multiaddr ?b" "IsThinWaist ?b"
    and vc: "valid_multiaddr ?c" "IsThinWaist ?c"
    by (simp_all add: valid_multiaddr_def IsThinWaist_def Protocols_def is_ip_name_def)
  have "DialArgs ?a = Returned (''tcp4'', ''7.7.7.7:4242'')"
    using DialArgs_thin_waist_result [OF va] by simp
  moreover have "DialArgs ?b = Returned (''udp6'', ''[::1]:1234'')"
    using DialArgs_thin_waist_result [OF vb] by simp
  moreover have "DialArgs ?c = Returned (''ip6'', ''::1'')"
    using DialArgs_thin_waist_result [OF vc] by simp
  ultimately show ?thesis by blast
qed

text \<open>
  Claim C3. When the third piece of the text is udp and a fifth piece exists and is
  utp, the network name is utp, taken before the version digit is appended. On
  \<^verbatim>\<open>/ip4/1.2.3.4/udp/9/utp\<close> the result is utp4 with host \<^verbatim>\<open>1.2.3.4:9\<close>, where the
  same address without the marker gives udp4.
\<close>

theorem DialArgs_utp_override:
  "(IsThinWaist m \<and> tl (Split (String m) (CHR ''/'')) = parts
      \<and> parts ! 2 = ''udp'' \<and> length parts > 4 \<and> parts ! 4 = ''utp'' \<longrightarrow>
      DialArgs m =
        (if parts ! 0 = ''ip4'' then Returned (''utp4'', parts ! 1 @ '':'' @ parts ! 3)
         else if parts ! 0 = ''ip6''
           then Returned (''utp6'', ''['' @ parts ! 1 @ '']:'' @ parts ! 3)
         else Returned (''utp'', [])))
   \<and> String [(''ip4'', Some ''1.2.3.4''), (''udp'', Some ''9''), (''utp'', None)]
       = ''/ip4/1.2.3.4/udp/9/utp''
   \<and> DialArgs [(''ip4'', Some ''1.2.3.4''), (''udp'', Some ''9''), (''utp'', None)]
       = Returned (''utp4'', ''1.2.3.4:9'')
   \<and> DialArgs [(''ip4'', Some ''1.2.3.4''), (''udp'', Some ''9'')]
       = Returned (''udp4'', ''1.2.3.4:9'')"
proof (intro conjI impI)
  assume h: "IsThinWaist m \<and> tl (Split (String m) (CHR ''/'')) = parts
      \<and> parts ! 2 = ''udp'' \<and> length parts > 4 \<and> parts ! 4 = ''utp''"
  then have "IsThinWaist m" "tl (Split (String m) (CHR ''/'')) = parts" by simp_all
  from DialArgs_parts [OF this] h
  show "DialArgs m =
        (if parts ! 0 = ''ip4'' then Returned (''utp4'', parts ! 1 @ '':'' @ parts ! 3)
         else if parts ! 0 = ''ip6''
           then Returned (''utp6'', ''['' @ parts ! 1 @ '']:'' @ parts ! 3)
         else Returned (''utp'', []))"
    by simp
next
  show "String [(''ip4'', Some ''1.2.3.4''), (''udp'', Some ''9''), (''utp'', None)]
       = ''/ip4/1.2.3.4/udp/9/utp''"
    by (simp add: String_def)
next
  show "DialArgs [(''ip4'', Some ''1.2.3.4''), (''udp'', Some ''9''), (''utp'', None)]
       = Returned (''utp4'', ''1.2.3.4:9'')"
    using DialArgs_utp [of "''ip4''" "''1.2.3.4''" "''9''"] by (simp add: is_ip_name_def)
next
  show "DialArgs [(''ip4'', Some ''1.2.3.4''), (''udp'', Some ''9'')]
       = Returned (''udp4'', ''1.2.3.4:9'')"
    using DialArgs_transport [of "''ip4''" "''udp''" "''1.2.3.4''" "''9''"]
    by (simp add: is_ip_name_def)
qed

theorem DialArgs_utp_override_witness:
  "IsThinWaist [(''ip6'', Some ''::1''), (''udp'', Some ''7''), (''utp'', None)]
   \<and> tl (Split (String [(''ip6'', Some ''::1''), (''udp'', Some ''7''), (''utp'', None)])
          (CHR ''/''))
       = [''ip6'', ''::1'', ''udp'', ''7'', ''utp'']
   \<and> DialArgs [(''ip6'', Some ''::1''), (''udp'', Some ''7''), (''utp'', None)]
       = Returned (''utp6'', ''[::1]:7'')"
proof -
  let ?m = "[(''ip6'', Some ''::1''), (''udp'', Some ''7''), (''utp'', None)]"
  have t: "IsThinWaist ?m" by (simp add: IsThinWaist_def Protocols_def is_ip_name_def)
  have p: "tl (Split (String ?m) (CHR ''/'')) = [''ip6'', ''::1'', ''udp'', ''7'', ''utp'']"
    by (simp add: String_def)
  show ?thesis
    using t p DialArgs_utp_override [of ?m "[''ip6'', ''::1'', ''udp'', ''7'', ''utp'']"]
    by simp
qed

section \<open>The IP primitive\<close>

lemma To4_None_iff_lengths:
  "To4 ip = None \<and> To16 ip = None \<longleftrightarrow> length ip \<noteq> 4 \<and> length ip \<noteq> 16"
  by (auto simp: To4_def To16_def)

lemma To4_mapped:
  "To4 [0, 0, 0, 0, 0, 0, 0, 0, 0, 0, 0xff, 0xff, a, b, c, d] = Some [a, b, c, d]"
  by (simp add: To4_def)

lemma sample_ip4: "IP_String sample_platform [1, 2, 3, 4] = ''1.2.3.4''"
  by (simp add: sample_platform_def To4_def)

lemma sample_ip6:
  "IP_String sample_platform [0, 0, 0, 0, 0, 0, 0, 0, 0, 0, 0, 0, 0, 0, 0, 1] = ''::1''"
  by (simp add: sample_platform_def To4_def)

lemma sample_mapped:
  "IP_String sample_platform [0, 0, 0, 0, 0, 0, 0, 0, 0, 0, 0xff, 0xff, 1, 2, 3, 4]
     = ''1.2.3.4''"
  by (simp add: sample_platform_def To4_mapped)

text \<open>
  Claim C6. \<^verbatim>\<open>FromIP\<close> fails with the incorrect-conversion error on a value that has
  neither a 4-byte nor a 16-byte form, that is, whose length is neither 4 nor 16.
  Otherwise it hands the library's parser the text of the value under the tag ip4 when
  the value has a 4-byte form, a 16-byte IPv4-mapped value included, and under the tag
  ip6 when it has only a 16-byte form; the parser reading that text as one segment, the
  result is the single segment so tagged.
\<close>

theorem FromIP_forms:
  "(length ip \<noteq> 4 \<and> length ip \<noteq> 16 \<longrightarrow> FromIP env ip = Failed ErrIncorrectNetAddr)
   \<and> ((To4 ip = None \<and> To16 ip = None) = (length ip \<noteq> 4 \<and> length ip \<noteq> 16))
   \<and> (length ip = 4 \<and> parses_segment env ''ip4'' (IP_String env ip) \<longrightarrow>
        FromIP env ip = Returned [(''ip4'', Some (IP_String env ip))])
   \<and> (ip = [0, 0, 0, 0, 0, 0, 0, 0, 0, 0, 0xff, 0xff, a, b, c, d]
        \<and> parses_segment env ''ip4'' (IP_String env ip) \<longrightarrow>
        To4 ip = Some [a, b, c, d]
        \<and> FromIP env ip = Returned [(''ip4'', Some (IP_String env ip))])
   \<and> (length ip = 16 \<and> To4 ip = None \<and> parses_segment env ''ip6'' (IP_String env ip) \<longrightarrow>
        FromIP env ip = Returned [(''ip6'', Some (IP_String env ip))])"
proof (intro conjI impI)
  show "(To4 ip = None \<and> To16 ip = None) = (length ip \<noteq> 4 \<and> length ip \<noteq> 16)"
    by (rule To4_None_iff_lengths)
next
  assume "length ip \<noteq> 4 \<and> length ip \<noteq> 16"
  then show "FromIP env ip = Failed ErrIncorrectNetAddr"
    by (simp add: FromIP_def To4_def To16_def)
next
  assume "length ip = 4 \<and> parses_segment env ''ip4'' (IP_String env ip)"
  then show "FromIP env ip = Returned [(''ip4'', Some (IP_String env ip))]"
    by (simp add: FromIP_def To4_def parses_segment_def)
next
  assume h: "ip = [0, 0, 0, 0, 0, 0, 0, 0, 0, 0, 0xff, 0xff, a, b, c, d]
        \<and> parses_segment env ''ip4'' (IP_String env ip)"
  then have e: "ip = [0, 0, 0, 0, 0, 0, 0, 0, 0, 0, 0xff, 0xff, a, b, c, d]"
    and p: "parses_segment env ''ip4'' (IP_String env ip)" by blast+
  show "To4 ip = Some [a, b, c, d]" unfolding e by (rule To4_mapped)
  then show "FromIP env ip = Returned [(''ip4'', Some (IP_String env ip))]"
    using p by (simp add: FromIP_def parses_segment_def)
next
  assume "length ip = 16 \<and> To4 ip = None \<and> parses_segment env ''ip6'' (IP_String env ip)"
  then show "FromIP env ip = Returned [(''ip6'', Some (IP_String env ip))]"
    by (simp add: FromIP_def To16_def parses_segment_def)
qed

theorem FromIP_forms_witness:
  "FromIP sample_platform [1, 2, 3] = Failed ErrIncorrectNetAddr
   \<and> FromIP sample_platform [1, 2, 3, 4] = Returned [(''ip4'', Some ''1.2.3.4'')]
   \<and> FromIP sample_platform [0, 0, 0, 0, 0, 0, 0, 0, 0, 0, 0xff, 0xff, 1, 2, 3, 4]
       = Returned [(''ip4'', Some ''1.2.3.4'')]
   \<and> FromIP sample_platform [0, 0, 0, 0, 0, 0, 0, 0, 0, 0, 0, 0, 0, 0, 0, 1]
       = Returned [(''ip6'', Some ''::1'')]"
proof -
  have p4: "parses_segment sample_platform ''ip4'' ''1.2.3.4''"
    and p6: "parses_segment sample_platform ''ip6'' ''::1''"
    by (simp_all add: parses_segment_def sample_platform_def)
  have n6: "To4 [0, 0, 0, 0, 0, 0, 0, 0, 0, 0, 0, 0, 0, 0, 0, 1::8 word] = None"
    by (simp add: To4_def)
  show ?thesis
    using FromIP_forms [of "[1, 2, 3]" sample_platform]
      FromIP_forms [of "[1, 2, 3, 4]" sample_platform]
      FromIP_forms [of "[0, 0, 0, 0, 0, 0, 0, 0, 0, 0, 0xff, 0xff, 1, 2, 3, 4]"
        sample_platform 1 2 3 4]
      FromIP_forms [of "[0, 0, 0, 0, 0, 0, 0, 0, 0, 0, 0, 0, 0, 0, 0, 1]" sample_platform]
      p4 p6 n6
    by (simp add: sample_ip4 sample_ip6 sample_mapped)
qed

section \<open>Registry lookups\<close>

lemma LookupByNetName_None_iff:
  "LookupByNetName reg name = None \<longleftrightarrow> (\<forall>s \<in> set reg. name \<notin> set (NetNames s))"
  by (auto simp: LookupByNetName_def find_None_iff)

lemma LookupByNetName_Some:
  "LookupByNetName reg name = Some s \<Longrightarrow> s \<in> set reg \<and> name \<in> set (NetNames s)"
  by (auto simp: LookupByNetName_def find_Some_iff)

lemma LookupByProtocolKey_None_iff:
  "LookupByProtocolKey reg k = None \<longleftrightarrow> (\<forall>s \<in> set reg. Key s \<noteq> k)"
  by (auto simp: LookupByProtocolKey_def find_None_iff)

lemma LookupByProtocolKey_Some:
  "LookupByProtocolKey reg k = Some s \<Longrightarrow> s \<in> set reg \<and> Key s = k"
  by (auto simp: LookupByProtocolKey_def find_Some_iff)

lemma registered_net_names:
  "LookupByNetName (registered env) ''tcp'' = Some (tcpAddrSpec env)"
  "LookupByNetName (registered env) ''sctp'' = None"
  by (simp_all add: LookupByNetName_def registered_def tcpAddrSpec_def udpAddrSpec_def
      utpAddrSpec_def ip4AddrSpec_def ip6AddrSpec_def)

lemma registered_keys:
  "LookupByProtocolKey (registered env) ''utp'' = Some (utpAddrSpec env)"
  "LookupByProtocolKey (registered env) ''tcp'' = Some (tcpAddrSpec env)"
  "LookupByProtocolKey (registered env) ''http'' = None"
  by (simp_all add: LookupByProtocolKey_def registered_def tcpAddrSpec_def udpAddrSpec_def
      utpAddrSpec_def ip4AddrSpec_def ip6AddrSpec_def)

lemma registered_converters:
  "s \<in> set (registered env) \<Longrightarrow> ConvertMultiaddr s = parseBasicNetMaddr env"
  by (auto simp: registered_def tcpAddrSpec_def udpAddrSpec_def utpAddrSpec_def
      ip4AddrSpec_def ip6AddrSpec_def)

lemma getMaddrParser_registered:
  assumes "getMaddrParser (registered env) k = Returned p"
  shows "p = parseBasicNetMaddr env"
proof (cases "LookupByProtocolKey (registered env) k")
  case None
  with assms show ?thesis by (simp add: getMaddrParser_def)
next
  case (Some s)
  then have "s \<in> set (registered env)" using LookupByProtocolKey_Some by blast
  with assms Some show ?thesis by (simp add: getMaddrParser_def registered_converters)
qed

lemma getMaddrParser_no_panic: "getMaddrParser reg k \<noteq> Panicked"
  by (simp add: getMaddrParser_def split: option.splits)

section \<open>Dispatch from a native address\<close>

text \<open>
  Claim C7. \<^verbatim>\<open>FromNetAddr\<close> of the nil address fails with the nil-address error,
  whatever is registered, so that no converter runs. On an address whose network name
  is in the \<^verbatim>\<open>NetNames\<close> of no registered specification it fails with the
  unsupported-network error; otherwise its result is that of the converter
  \<^verbatim>\<open>ParseNetAddr\<close> of the specification looked up, applied to the address.
\<close>

theorem FromNetAddr_dispatch:
  "FromNetAddr reg None = Failed ErrNilMultiaddr
   \<and> ((\<forall>s \<in> set reg. Network a \<notin> set (NetNames s)) \<longrightarrow>
        FromNetAddr reg (Some a) = Failed (ErrNetworkNotSupported (Network a)))
   \<and> (LookupByNetName reg (Network a) = Some s \<longrightarrow>
        s \<in> set reg \<and> Network a \<in> set (NetNames s)
        \<and> FromNetAddr reg (Some a) = ParseNetAddr s a)"
proof (intro conjI impI)
  show "FromNetAddr reg None = Failed ErrNilMultiaddr"
    by (simp add: FromNetAddr_def)
next
  assume "\<forall>s \<in> set reg. Network a \<notin> set (NetNames s)"
  then have "LookupByNetName reg (Network a) = None"
    by (simp add: LookupByNetName_None_iff)
  then show "FromNetAddr reg (Some a) = Failed (ErrNetworkNotSupported (Network a))"
    by (simp add: FromNetAddr_def getAddrParser_def)
next
  assume h: "LookupByNetName reg (Network a) = Some s"
  then show "s \<in> set reg" "Network a \<in> set (NetNames s)"
    using LookupByNetName_Some by blast+
  from h show "FromNetAddr reg (Some a) = ParseNetAddr s a"
    by (simp add: FromNetAddr_def getAddrParser_def)
qed

theorem FromNetAddr_dispatch_witness:
  "FromNetAddr (registered sample_platform) (Some (NetAddr ''sctp'' OtherAddr))
     = Failed (ErrNetworkNotSupported ''sctp'')
   \<and> FromNetAddr (registered sample_platform) (Some (NetAddr ''tcp'' (TCPAddr [1, 2, 3, 4] 80)))
     = parseTcpNetAddr sample_platform (NetAddr ''tcp'' (TCPAddr [1, 2, 3, 4] 80))"
proof -
  let ?reg = "registered sample_platform"
  have none: "\<forall>s \<in> set ?reg. Network (NetAddr ''sctp'' OtherAddr) \<notin> set (NetNames s)"
    by (simp add: registered_def tcpAddrSpec_def udpAddrSpec_def
      utpAddrSpec_def ip4AddrSpec_def ip6AddrSpec_def)
  have some: "LookupByNetName ?reg (Network (NetAddr ''tcp'' (TCPAddr [1, 2, 3, 4] 80)))
      = Some (tcpAddrSpec sample_platform)"
    by (simp add: registered_net_names)
  show ?thesis
    using none some
      FromNetAddr_dispatch [of ?reg "NetAddr ''sctp'' OtherAddr"]
      FromNetAddr_dispatch [of ?reg "NetAddr ''tcp'' (TCPAddr [1, 2, 3, 4] 80)"
        "tcpAddrSpec sample_platform"]
    by (simp add: tcpAddrSpec_def)
qed

section \<open>The shared converter to a native address\<close>

lemma valid_names_prefix:
  assumes "n \<in> {''ip4'', ''ip6'', ''tcp4'', ''tcp6'', ''udp4'', ''udp6'', ''utp4'', ''utp6''}"
  shows "HasPrefix n ''tcp'' \<longleftrightarrow> n = ''tcp4'' \<or> n = ''tcp6''"
    and "HasPrefix n ''udp'' \<longleftrightarrow> n = ''udp4'' \<or> n = ''udp6''"
    and "HasPrefix n ''utp'' \<longleftrightarrow> n = ''utp4'' \<or> n = ''utp6''"
    and "HasPrefix n ''ip'' \<longleftrightarrow> n = ''ip4'' \<or> n = ''ip6''"
  using assms by (elim insertE emptyE; simp add: HasPrefix_def)+

lemma prefix_names:
  "\<not> HasPrefix n ''tcp'' \<Longrightarrow> n \<noteq> ''tcp'' \<and> n \<noteq> ''tcp4'' \<and> n \<noteq> ''tcp6''"
  "\<not> HasPrefix n ''udp'' \<Longrightarrow> n \<noteq> ''udp'' \<and> n \<noteq> ''udp4'' \<and> n \<noteq> ''udp6''"
  "\<not> HasPrefix n ''utp'' \<Longrightarrow> n \<noteq> ''utp'' \<and> n \<noteq> ''utp4'' \<and> n \<noteq> ''utp6''"
  "\<not> HasPrefix n ''ip'' \<Longrightarrow> n \<noteq> ''ip'' \<and> n \<noteq> ''ip4'' \<and> n \<noteq> ''ip6''"
  by (auto simp: HasPrefix_def)

lemma parseBasicNetMaddr_Returned:
  "DialArgs m = Returned (n, h) \<Longrightarrow>
   parseBasicNetMaddr env m =
     (if n = ''tcp'' \<or> n = ''tcp4'' \<or> n = ''tcp6'' then ResolveTCPAddr env n h
      else if n = ''udp'' \<or> n = ''udp4'' \<or> n = ''udp6'' then ResolveUDPAddr env n h
      else if n = ''utp'' \<or> n = ''utp4'' \<or> n = ''utp6'' then utp_ResolveAddr env n h
      else if n = ''ip'' \<or> n = ''ip4'' \<or> n = ''ip6'' then ResolveIPAddr env n h
      else Failed (ErrNetworkNotSupported n))"
  by (simp add: parseBasicNetMaddr_def)

lemma parseBasicNetMaddr_no_panic:
  assumes "valid_multiaddr m" "resolvers_return env"
  shows "parseBasicNetMaddr env m \<noteq> Panicked"
proof (cases "DialArgs m")
  case (Returned r)
  obtain n h where "r = (n, h)" by (cases r)
  with Returned have "DialArgs m = Returned (n, h)" by simp
  from parseBasicNetMaddr_Returned [OF this, of env] assms(2) show ?thesis
    by (auto simp: resolvers_return_def)
next
  case (Failed e)
  then show ?thesis by (simp add: parseBasicNetMaddr_def)
next
  case Panicked
  with DialArgs_valid_no_panic [OF assms(1)] show ?thesis by simp
qed

text \<open>
  Claim C9. \<^verbatim>\<open>parseBasicNetMaddr\<close> calls \<^verbatim>\<open>DialArgs\<close> and returns its error unchanged.
  On a network name and a host, it returns, unchanged, what the TCP resolver makes of
  them for the names tcp, tcp4, tcp6, the UDP resolver for udp, udp4, udp6, the
  overlay-transport resolver for utp, utp4, utp6, and the IP resolver for ip, ip4, ip6;
  on a name that begins with none of tcp, udp, utp, ip it fails with the
  unsupported-network error. The names of a well-formed address are the suffixed ones,
  so that on such an address the resolver is the one of the prefix of the name.
\<close>

theorem parseBasicNetMaddr_dispatch:
  "(DialArgs m = Failed e \<longrightarrow> parseBasicNetMaddr env m = Failed e)
   \<and> (DialArgs m = Returned (n, h) \<longrightarrow>
        (n \<in> {''tcp'', ''tcp4'', ''tcp6''} \<longrightarrow>
           parseBasicNetMaddr env m = ResolveTCPAddr env n h)
      \<and> (n \<in> {''udp'', ''udp4'', ''udp6''} \<longrightarrow>
           parseBasicNetMaddr env m = ResolveUDPAddr env n h)
      \<and> (n \<in> {''utp'', ''utp4'', ''utp6''} \<longrightarrow>
           parseBasicNetMaddr env m = utp_ResolveAddr env n h)
      \<and> (n \<in> {''ip'', ''ip4'', ''ip6''} \<longrightarrow>
           parseBasicNetMaddr env m = ResolveIPAddr env n h)
      \<and> (\<not> HasPrefix n ''tcp'' \<and> \<not> HasPrefix n ''udp'' \<and> \<not> HasPrefix n ''utp''
           \<and> \<not> HasPrefix n ''ip'' \<longrightarrow>
           parseBasicNetMaddr env m = Failed (ErrNetworkNotSupported n)))
   \<and> (valid_multiaddr m \<and> DialArgs m = Returned (n, h) \<longrightarrow>
        (HasPrefix n ''tcp'' \<longrightarrow> parseBasicNetMaddr env m = ResolveTCPAddr env n h)
      \<and> (HasPrefix n ''udp'' \<longrightarrow> parseBasicNetMaddr env m = ResolveUDPAddr env n h)
      \<and> (HasPrefix n ''utp'' \<longrightarrow> parseBasicNetMaddr env m = utp_ResolveAddr env n h)
      \<and> (HasPrefix n ''ip'' \<longrightarrow> parseBasicNetMaddr env m = ResolveIPAddr env n h))"
proof (intro conjI impI)
  assume "DialArgs m = Failed e"
  then show "parseBasicNetMaddr env m = Failed e"
    by (simp add: parseBasicNetMaddr_def)
next
  assume d: "DialArgs m = Returned (n, h)"
  note eq = parseBasicNetMaddr_Returned [OF d, of env]
  { assume "n \<in> {''tcp'', ''tcp4'', ''tcp6''}"
    then show "parseBasicNetMaddr env m = ResolveTCPAddr env n h"
      unfolding eq by auto }
  { assume "n \<in> {''udp'', ''udp4'', ''udp6''}"
    then show "parseBasicNetMaddr env m = ResolveUDPAddr env n h"
      unfolding eq by auto }
  { assume "n \<in> {''utp'', ''utp4'', ''utp6''}"
    then show "parseBasicNetMaddr env m = utp_ResolveAddr env n h"
      unfolding eq by auto }
  { assume "n \<in> {''ip'', ''ip4'', ''ip6''}"
    then show "parseBasicNetMaddr env m = ResolveIPAddr env n h"
      unfolding eq by auto }
  { assume "\<not> HasPrefix n ''tcp'' \<and> \<not> HasPrefix n ''udp'' \<and> \<not> HasPrefix n ''utp''
           \<and> \<not> HasPrefix n ''ip''"
    then show "parseBasicNetMaddr env m = Failed (ErrNetworkNotSupported n)"
      unfolding eq using prefix_names [of n] by simp }
next
  assume "valid_multiaddr m \<and> DialArgs m = Returned (n, h)"
  then have v: "valid_multiaddr m" and d: "DialArgs m = Returned (n, h)"
    by simp_all
  note names = DialArgs_valid_names [OF v d]
  note eq = parseBasicNetMaddr_Returned [OF d, of env]
  { assume "HasPrefix n ''tcp''"
    with valid_names_prefix(1) [OF names] have "n = ''tcp4'' \<or> n = ''tcp6''" by simp
    then show "parseBasicNetMaddr env m = ResolveTCPAddr env n h"
      unfolding eq by (elim disjE; simp) }
  { assume "HasPrefix n ''udp''"
    with valid_names_prefix(2) [OF names] have "n = ''udp4'' \<or> n = ''udp6''" by simp
    then show "parseBasicNetMaddr env m = ResolveUDPAddr env n h"
      unfolding eq by (elim disjE; simp) }
  { assume "HasPrefix n ''utp''"
    with valid_names_prefix(3) [OF names] have "n = ''utp4'' \<or> n = ''utp6''" by simp
    then show "parseBasicNetMaddr env m = utp_ResolveAddr env n h"
      unfolding eq by (elim disjE; simp) }
  { assume "HasPrefix n ''ip''"
    with valid_names_prefix(4) [OF names] have "n = ''ip4'' \<or> n = ''ip6''" by simp
    then show "parseBasicNetMaddr env m = ResolveIPAddr env n h"
      unfolding eq by (elim disjE; simp) }
qed

text \<open>
  The statement is exercised on an address that is not thin-waist, on a TCP and on an
  overlay-transport address, and, for the last case, on a segment list whose IP value
  holds the delimiter, which the library does not build: only there does the switch
  meet a name it does not know.
\<close>

theorem parseBasicNetMaddr_dispatch_witness:
  "parseBasicNetMaddr sample_platform [(''tcp'', Some ''80'')]
     = Failed (ErrNotThinWaist ''/tcp/80'')
   \<and> parseBasicNetMaddr sample_platform [(''ip4'', Some ''1.2.3.4''), (''tcp'', Some ''80'')]
     = ResolveTCPAddr sample_platform ''tcp4'' ''1.2.3.4:80''
   \<and> parseBasicNetMaddr sample_platform
       [(''ip4'', Some ''1.2.3.4''), (''udp'', Some ''9''), (''utp'', None)]
     = utp_ResolveAddr sample_platform ''utp4'' ''1.2.3.4:9''
   \<and> parseBasicNetMaddr sample_platform [(''ip4'', Some ''a/b/c/d'')]
     = Failed (ErrNetworkNotSupported ''b4'')"
proof -
  let ?n = "[(''tcp'', Some ''80'')]"
  let ?t = "[(''ip4'', Some ''1.2.3.4''), (''tcp'', Some ''80'')]"
  let ?u = "[(''ip4'', Some ''1.2.3.4''), (''udp'', Some ''9''), (''utp'', None)]"
  let ?x = "[(''ip4'', Some ''a/b/c/d'')]"
  have dn: "DialArgs ?n = Failed (ErrNotThinWaist ''/tcp/80'')"
    by (simp add: DialArgs_def IsThinWaist_def Protocols_def String_def is_ip_name_def)
  have dt: "DialArgs ?t = Returned (''tcp4'', ''1.2.3.4:80'')"
    using DialArgs_transport [of "''ip4''" "''tcp''" "''1.2.3.4''" "''80''"]
    by (simp add: is_ip_name_def)
  have du: "DialArgs ?u = Returned (''utp4'', ''1.2.3.4:9'')"
    using DialArgs_utp [of "''ip4''" "''1.2.3.4''" "''9''"] by (simp add: is_ip_name_def)
  have tx: "IsThinWaist ?x"
    by (simp add: IsThinWaist_def Protocols_def is_ip_name_def)
  have px: "tl (Split (String ?x) (CHR ''/'')) = [''ip4'', ''a'', ''b'', ''c'', ''d'']"
    by (simp add: String_def)
  have dx: "DialArgs ?x = Returned (''b4'', ''a:c'')"
    by (simp add: DialArgs_parts [OF tx px])
  have vu: "valid_multiaddr ?u" by (simp add: valid_multiaddr_def)
  have pre: "HasPrefix ''utp4'' ''utp''" "\<not> HasPrefix ''b4'' ''tcp''"
    "\<not> HasPrefix ''b4'' ''udp''" "\<not> HasPrefix ''b4'' ''utp''" "\<not> HasPrefix ''b4'' ''ip''"
    by (simp_all add: HasPrefix_def)
  have "parseBasicNetMaddr sample_platform ?n = Failed (ErrNotThinWaist ''/tcp/80'')"
    using dn parseBasicNetMaddr_dispatch
      [where m = ?n and e = "ErrNotThinWaist ''/tcp/80''" and env = sample_platform] by simp
  moreover have "parseBasicNetMaddr sample_platform ?t
      = ResolveTCPAddr sample_platform ''tcp4'' ''1.2.3.4:80''"
    using dt parseBasicNetMaddr_dispatch
      [where m = ?t and n = "''tcp4''" and h = "''1.2.3.4:80''" and env = sample_platform]
    by simp
  moreover have "parseBasicNetMaddr sample_platform ?u
      = utp_ResolveAddr sample_platform ''utp4'' ''1.2.3.4:9''"
    using du vu pre(1)
      parseBasicNetMaddr_dispatch
        [where m = ?u and n = "''utp4''" and h = "''1.2.3.4:9''" and env = sample_platform]
    by simp
  moreover have "parseBasicNetMaddr sample_platform ?x = Failed (ErrNetworkNotSupported ''b4'')"
    using dx pre(2-5)
      parseBasicNetMaddr_dispatch
        [where m = ?x and n = "''b4''" and h = "''a:c''" and env = sample_platform]
    by simp
  ultimately show ?thesis by blast
qed

section \<open>Dispatch from a layered address\<close>

text \<open>
  Claim C8. On an address with at least one segment, \<^verbatim>\<open>ToNetAddr\<close> takes the name of
  the last segment, fails with the unsupported-network error when no registered
  specification has it as \<^verbatim>\<open>Key\<close>, and otherwise returns what the converter
  \<^verbatim>\<open>ConvertMultiaddr\<close> of the specification looked up makes of the whole address. An
  address that ends with the utp marker goes to the utp specification.
\<close>

theorem ToNetAddr_dispatch:
  "maddr \<noteq> [] \<longrightarrow>
     ((\<forall>s \<in> set reg. Key s \<noteq> last (Protocols maddr)) \<longrightarrow>
        ToNetAddr reg maddr = Failed (ErrNetworkNotSupported (last (Protocols maddr))))
     \<and> (LookupByProtocolKey reg (last (Protocols maddr)) = Some s \<longrightarrow>
          s \<in> set reg \<and> Key s = last (Protocols maddr)
          \<and> ToNetAddr reg maddr = ConvertMultiaddr s maddr)"
proof (intro conjI impI)
  assume ne: "maddr \<noteq> []"
  then have idx: "Protocols maddr \<noteq> []"
    "Protocols maddr ! (length (Protocols maddr) - 1) = last (Protocols maddr)"
    by (simp_all add: Protocols_def last_conv_nth)
  { assume "\<forall>s \<in> set reg. Key s \<noteq> last (Protocols maddr)"
    then have "LookupByProtocolKey reg (last (Protocols maddr)) = None"
      by (simp add: LookupByProtocolKey_None_iff)
    then show "ToNetAddr reg maddr = Failed (ErrNetworkNotSupported (last (Protocols maddr)))"
      using idx by (simp add: ToNetAddr_def getMaddrParser_def Let_def) }
  { assume h: "LookupByProtocolKey reg (last (Protocols maddr)) = Some s"
    then show "s \<in> set reg" "Key s = last (Protocols maddr)"
      using LookupByProtocolKey_Some by blast+
    from h show "ToNetAddr reg maddr = ConvertMultiaddr s maddr"
      using idx by (simp add: ToNetAddr_def getMaddrParser_def Let_def) }
qed

theorem ToNetAddr_dispatch_witness:
  "ToNetAddr (registered sample_platform)
     [(''ip4'', Some ''1.2.3.4''), (''udp'', Some ''9''), (''utp'', None)]
     = ConvertMultiaddr (utpAddrSpec sample_platform)
         [(''ip4'', Some ''1.2.3.4''), (''udp'', Some ''9''), (''utp'', None)]
   \<and> ToNetAddr (registered sample_platform)
     [(''ip4'', Some ''1.2.3.4''), (''udp'', Some ''9''), (''utp'', None)]
     = utp_ResolveAddr sample_platform ''utp4'' ''1.2.3.4:9''
   \<and> ToNetAddr (registered sample_platform) [(''ip4'', Some ''1.2.3.4''), (''http'', None)]
     = Failed (ErrNetworkNotSupported ''http'')"
proof -
  let ?reg = "registered sample_platform"
  let ?u = "[(''ip4'', Some ''1.2.3.4''), (''udp'', Some ''9''), (''utp'', None)]"
  let ?h = "[(''ip4'', Some ''1.2.3.4''), (''http'', None)]"
  have lu: "last (Protocols ?u) = ''utp''" and lh: "last (Protocols ?h) = ''http''"
    by (simp_all add: Protocols_def)
  have none: "\<forall>s \<in> set ?reg. Key s \<noteq> last (Protocols ?h)"
    unfolding lh by (simp add: registered_def tcpAddrSpec_def udpAddrSpec_def
      utpAddrSpec_def ip4AddrSpec_def ip6AddrSpec_def)
  have some: "LookupByProtocolKey ?reg (last (Protocols ?u)) = Some (utpAddrSpec sample_platform)"
    unfolding lu by (rule registered_keys)
  have d: "DialArgs ?u = Returned (''utp4'', ''1.2.3.4:9'')"
    using DialArgs_utp [of "''ip4''" "''1.2.3.4''" "''9''"] by (simp add: is_ip_name_def)
  have c: "ToNetAddr ?reg ?u = ConvertMultiaddr (utpAddrSpec sample_platform) ?u"
    using some ToNetAddr_dispatch [of ?u ?reg "utpAddrSpec sample_platform"]
    by simp
  have "ConvertMultiaddr (utpAddrSpec sample_platform) ?u
      = utp_ResolveAddr sample_platform ''utp4'' ''1.2.3.4:9''"
    by (simp add: utpAddrSpec_def parseBasicNetMaddr_Returned [OF d])
  with c have "ToNetAddr ?reg ?u = utp_ResolveAddr sample_platform ''utp4'' ''1.2.3.4:9''"
    by simp
  moreover have "ToNetAddr ?reg ?h = Failed (ErrNetworkNotSupported ''http'')"
    using none ToNetAddr_dispatch [of ?h ?reg] lh by simp
  ultimately show ?thesis using c by blast
qed

lemma ToNetAddr_registered_no_panic:
  assumes "maddr \<noteq> []" "valid_multiaddr maddr" "resolvers_return env"
  shows "ToNetAddr (registered env) maddr \<noteq> Panicked"
proof (cases "getMaddrParser (registered env) (last (Protocols maddr))")
  case (Returned p)
  then have "p = parseBasicNetMaddr env" by (rule getMaddrParser_registered)
  with Returned assms show ?thesis
    using parseBasicNetMaddr_no_panic [of maddr env]
    by (simp add: ToNetAddr_def Let_def Protocols_def last_conv_nth)
next
  case (Failed e)
  with assms(1) show ?thesis
    by (simp add: ToNetAddr_def Let_def Protocols_def last_conv_nth)
next
  case Panicked
  then show ?thesis using getMaddrParser_no_panic by blast
qed

text \<open>
  Claim C10. On an address without segment \<^verbatim>\<open>ToNetAddr\<close> indexes the empty protocol
  list and panics; it returns no error. It is total under the precondition that the
  address has a segment: a panic on such an address is a panic of the converter it
  calls, and with the registered specifications and resolvers that return, a
  well-formed address with a segment never panics.
\<close>

theorem ToNetAddr_empty_panics:
  "ToNetAddr reg [] = Panicked
   \<and> (ToNetAddr reg maddr = Panicked \<longrightarrow>
        maddr = []
        \<or> (\<exists>s. LookupByProtocolKey reg (last (Protocols maddr)) = Some s
               \<and> ConvertMultiaddr s maddr = Panicked))
   \<and> (maddr \<noteq> [] \<and> valid_multiaddr maddr \<and> resolvers_return env \<longrightarrow>
        ToNetAddr (registered env) maddr \<noteq> Panicked)"
proof (intro conjI impI)
  show "ToNetAddr reg [] = Panicked"
    by (simp add: ToNetAddr_def Protocols_def)
next
  assume p: "ToNetAddr reg maddr = Panicked"
  show "maddr = [] \<or> (\<exists>s. LookupByProtocolKey reg (last (Protocols maddr)) = Some s
               \<and> ConvertMultiaddr s maddr = Panicked)"
  proof (cases "maddr = []")
    case True
    then show ?thesis by simp
  next
    case False
    then have idx: "Protocols maddr \<noteq> []"
      "Protocols maddr ! (length (Protocols maddr) - 1) = last (Protocols maddr)"
      by (simp_all add: Protocols_def last_conv_nth)
    with p show ?thesis
      by (auto simp: ToNetAddr_def getMaddrParser_def Let_def split: option.splits)
  qed
next
  assume "maddr \<noteq> [] \<and> valid_multiaddr maddr \<and> resolvers_return env"
  then show "ToNetAddr (registered env) maddr \<noteq> Panicked"
    using ToNetAddr_registered_no_panic by simp
qed

theorem ToNetAddr_empty_panics_witness:
  "ToNetAddr (registered sample_platform) [] = Panicked
   \<and> Protocols [] = []
   \<and> resolvers_return sample_platform
   \<and> ToNetAddr (registered sample_platform) [(''ip4'', Some ''1.2.3.4''), (''tcp'', Some ''80'')]
       \<noteq> Panicked"
proof -
  let ?t = "[(''ip4'', Some ''1.2.3.4''), (''tcp'', Some ''80'')]"
  have r: "resolvers_return sample_platform"
    by (simp add: resolvers_return_def sample_platform_def)
  have v: "?t \<noteq> [] \<and> valid_multiaddr ?t"
    by (simp add: valid_multiaddr_def)
  show ?thesis
    using r v
      ToNetAddr_empty_panics [of "registered sample_platform" "[]" sample_platform]
      ToNetAddr_empty_panics [of "registered sample_platform" ?t sample_platform]
    by (simp add: Protocols_def)
qed

section \<open>Round trip of an IP address\<close>

text \<open>
  The TCP path, for comparison: under each of its three names a TCP address with a
  4-byte IP becomes the IP segment followed by the tcp segment, and that layered address
  goes to the TCP resolver with the name tcp4 and the host \<open>ip:port\<close>. What comes back
  is the resolver's answer.
\<close>

lemma tcp_round_trip:
  assumes "n \<in> {''tcp'', ''tcp4'', ''tcp6''}" and "length ip = 4"
    and "parses_segment env ''ip4'' (IP_String env ip)"
    and "parses_segment env ''tcp'' (Sprintf_d port)"
    and "CHR ''/'' \<notin> set (IP_String env ip)" and "CHR ''/'' \<notin> set (Sprintf_d port)"
  shows "FromNetAddr (registered env) (Some (NetAddr n (TCPAddr ip port)))
           = Returned [(''ip4'', Some (IP_String env ip)), (''tcp'', Some (Sprintf_d port))]"
    and "ToNetAddr (registered env)
             [(''ip4'', Some (IP_String env ip)), (''tcp'', Some (Sprintf_d port))]
           = ResolveTCPAddr env ''tcp4'' (IP_String env ip @ '':'' @ Sprintf_d port)"
proof -
  have l: "LookupByNetName (registered env) n = Some (tcpAddrSpec env)"
    using assms(1) by (auto simp: LookupByNetName_def registered_def tcpAddrSpec_def)
  have f: "FromIP env ip = Returned [(''ip4'', Some (IP_String env ip))]"
    using assms(2,3) by (simp add: FromIP_def To4_def parses_segment_def)
  have p: "NewMultiaddr env (''/tcp/'' @ Sprintf_d port)
      = Returned [(''tcp'', Some (Sprintf_d port))]"
    using assms(4) by (simp add: parses_segment_def)
  show "FromNetAddr (registered env) (Some (NetAddr n (TCPAddr ip port)))
           = Returned [(''ip4'', Some (IP_String env ip)), (''tcp'', Some (Sprintf_d port))]"
    using l f p
    by (simp add: FromNetAddr_def getAddrParser_def tcpAddrSpec_def parseTcpNetAddr_def
        encapsulate_port_def Encapsulate_def)
  let ?m = "[(''ip4'', Some (IP_String env ip)), (''tcp'', Some (Sprintf_d port))]"
  have d: "DialArgs ?m = Returned (''tcp4'', IP_String env ip @ '':'' @ Sprintf_d port)"
    using DialArgs_transport [of "''ip4''" "''tcp''" "IP_String env ip" "Sprintf_d port"]
      assms(5,6)
    by (simp add: is_ip_name_def)
  show "ToNetAddr (registered env) ?m
           = ResolveTCPAddr env ''tcp4'' (IP_String env ip @ '':'' @ Sprintf_d port)"
    by (simp add: ToNetAddr_def Protocols_def getMaddrParser_def registered_keys(2)
        tcpAddrSpec_def parseBasicNetMaddr_Returned [OF d])
qed

text \<open>
  Claim C5. The round trip from a native address to a layered address and back is to
  give an equal native address for tcp, udp and ip. An IP address whose network name is
  \<^verbatim>\<open>ip\<close>, the name the specification lists for a native IP address and the one
  \<^verbatim>\<open>parseBasicNetMaddr\<close> accepts for the IP resolver, does not get through the first
  half: \<^verbatim>\<open>ip4AddrSpec\<close> and \<^verbatim>\<open>ip6AddrSpec\<close> list the names ip4 and ip6 only, where the tcp,
  udp and utp specifications also list the name without digit, so \<^verbatim>\<open>FromNetAddr\<close> fails
  with the unsupported-network error. The same address under the name ip4 is converted,
  a TCP address under the name tcp is converted, and the layered IP address goes to the
  IP resolver.
\<close>

theorem FromNetAddr_ip_name_unregistered:
  "FromNetAddr (registered env) (Some (NetAddr ''ip'' (IPAddr [1, 2, 3, 4])))
     = Failed (ErrNetworkNotSupported ''ip'')
   \<and> FromNetAddr (registered env) (Some (NetAddr ''ip4'' (IPAddr [1, 2, 3, 4])))
     = FromIP env [1, 2, 3, 4]
   \<and> FromNetAddr (registered env) (Some (NetAddr ''tcp'' (TCPAddr [1, 2, 3, 4] 80)))
     = parseTcpNetAddr env (NetAddr ''tcp'' (TCPAddr [1, 2, 3, 4] 80))
   \<and> ToNetAddr (registered env) [(''ip4'', Some ''1.2.3.4'')]
     = ResolveIPAddr env ''ip4'' ''1.2.3.4''"
proof -
  have d: "DialArgs [(''ip4'', Some ''1.2.3.4'')] = Returned (''ip4'', ''1.2.3.4'')"
    by (simp add: DialArgs_ip is_ip_name_def)
  have "ToNetAddr (registered env) [(''ip4'', Some ''1.2.3.4'')]
     = ResolveIPAddr env ''ip4'' ''1.2.3.4''"
    by (simp add: ToNetAddr_def Protocols_def getMaddrParser_def LookupByProtocolKey_def
        registered_def tcpAddrSpec_def udpAddrSpec_def utpAddrSpec_def ip4AddrSpec_def
        parseBasicNetMaddr_Returned [OF d])
  then show ?thesis
    by (simp add: FromNetAddr_def getAddrParser_def LookupByNetName_def registered_def
        tcpAddrSpec_def udpAddrSpec_def utpAddrSpec_def ip4AddrSpec_def ip6AddrSpec_def
        parseIpNetAddr_def)
qed

end
